theory Spec2Isabelle
  imports Main
begin

section \<open>Data model\<close>

text \<open>
  The persisted entity of \<^verbatim>\<open>DataSourceModel.ts\<close> is the data source record
  (\<^verbatim>\<open>DataSourceInterface\<close>).  Its type declaration lives in
  \<^verbatim>\<open>types/datasource\<close>; the fields used here are the ones the model file
  reads and writes (the schema of lines 17-29, the object literal of lines 138-147 and
  the paths touched by \<^verbatim>\<open>upgradeDatasourceObject\<close>).  An optional property
  is an \<open>option\<close>; the fields of the settings bundle that the model file never
  names are carried along in the type parameters \<open>'r\<close> (settings) and \<open>'q\<close>
  (queries).
\<close>

record IdentifierType =
  idt_id :: string
  idt_description :: string

record ExposureQuery =
  description :: string
  dimensions :: "string list"
  exposure_ids :: "string list"
  query :: string

text \<open>An object literal such as \<^verbatim>\<open>{ main: {...} }\<close> is a list of keyed entries.\<close>

type_synonym Exposure = "(string \<times> ExposureQuery) list"

record 'q Queries =
  experimentsQuery :: "string option"
  exposure :: "Exposure option"
  queries_other :: 'q

record ('r, 'q) DataSourceSettings =
  ids :: "IdentifierType list option"
  experimentDimensions :: "string list option"
  queries :: "'q Queries option"
  settings_other :: 'r

text \<open>
  A \<^verbatim>\<open>Date\<close> is its number of milliseconds; \<^verbatim>\<open>params\<close> is the encrypted
  string of the schema.  The settings of a stored document may be undefined (the
  schema declares them as a free-form \<^verbatim>\<open>{}\<close>, and the upgrade reads them
  through \<^verbatim>\<open>settings?.\<close>).
\<close>

record ('r, 'q) DataSourceInterface =
  ds_id :: string
  name :: string
  organization :: string
  ds_type :: string
  settings :: "('r, 'q) DataSourceSettings option"
  dateCreated :: nat
  dateUpdated :: nat
  params :: string

text \<open>\<^verbatim>\<open>Partial<DataSourceInterface>\<close>: every field may be left out.\<close>

record ('r, 'q) DataSourceUpdates =
  upd_id :: "string option"
  upd_name :: "string option"
  upd_organization :: "string option"
  upd_type :: "string option"
  upd_settings :: "('r, 'q) DataSourceSettings option"
  upd_dateCreated :: "nat option"
  upd_dateUpdated :: "nat option"
  upd_params :: "string option"

datatype error =
    Error string  \<comment> \<open>\<^verbatim>\<open>new Error(message)\<close>\<close>
  | TypeError  \<comment> \<open>a property write on \<^verbatim>\<open>undefined\<close>\<close>
  | DuplicateKey  \<comment> \<open>the document store rejecting a write against the unique index\<close>
  | External string  \<comment> \<open>an error raised by a service outside this file\<close>

section \<open>Upgrade on read\<close>

text \<open>JavaScript truthiness of an optional string: defined and not empty.\<close>

definition truthy :: "string option \<Rightarrow> bool" where
  "truthy s = (case s of None \<Rightarrow> False | Some t \<Rightarrow> t \<noteq> [])"

definition default_ids :: "IdentifierType list" where
  "default_ids =
     [\<lparr>idt_id = ''user_id'', idt_description = ''Logged-in user id''\<rparr>,
      \<lparr>idt_id = ''anonymous_id'', idt_description = ''Anonymous visitor id''\<rparr>]"

text \<open>
  Lines 46-57.  An array is truthy whenever it is defined, so \<^verbatim>\<open>!settings?.ids\<close>
  holds exactly when the field is absent.
\<close>

definition upgrade_ids ::
  "('r, 'q) DataSourceSettings \<Rightarrow> ('r, 'q) DataSourceSettings" where
  "upgrade_ids s = (if ids s = None then s\<lparr>ids := Some default_ids\<rparr> else s)"

text \<open>
  Lines 58-67.  The guard needs \<^verbatim>\<open>queries\<close> defined, \<^verbatim>\<open>experimentsQuery\<close>
  truthy and \<^verbatim>\<open>exposure\<close> (an object, truthy whenever defined) absent.
\<close>

definition main_exposure :: "string list option \<Rightarrow> string \<Rightarrow> Exposure" where
  "main_exposure dims q =
     [(''main'',
       \<lparr>description = ''Main experiment exposures table'',
        dimensions = (case dims of None \<Rightarrow> [] | Some ds \<Rightarrow> ds),
        exposure_ids = [''user_id'', ''anonymous_id''],
        query = q\<rparr>)]"

definition upgrade_exposure ::
  "('r, 'q) DataSourceSettings \<Rightarrow> ('r, 'q) DataSourceSettings" where
  "upgrade_exposure s =
     (case queries s of
        None \<Rightarrow> s
      | Some qs \<Rightarrow>
          (case experimentsQuery qs of
             None \<Rightarrow> s
           | Some eq \<Rightarrow>
               if truthy (Some eq) \<and> exposure qs = None
               then s\<lparr>queries :=
                        Some (qs\<lparr>exposure := Some (main_exposure (experimentDimensions s) eq)\<rparr>)\<rparr>
               else s))"

text \<open>
  \<^verbatim>\<open>upgradeDatasourceObject\<close>, lines 41-70.  When \<^verbatim>\<open>settings\<close> is undefined the
  first guard holds and the assignment \<^verbatim>\<open>settings.ids = ...\<close> raises a
  \<^verbatim>\<open>TypeError\<close>.
\<close>

definition upgradeDatasourceObject ::
  "('r, 'q) DataSourceInterface \<Rightarrow> error + ('r, 'q) DataSourceInterface" where
  "upgradeDatasourceObject datasource =
     (case settings datasource of
        None \<Rightarrow> Inl TypeError
      | Some s \<Rightarrow> Inr (datasource\<lparr>settings := Some (upgrade_exposure (upgrade_ids s))\<rparr>))"

section \<open>The environment of a call\<close>

text \<open>
  What the model file imports and does not define: the mode flag and the static
  configuration (\<^verbatim>\<open>init/config\<close>), the encryption and the connection test
  (\<^verbatim>\<open>services/datasource\<close>), the OAuth token exchange, \<^verbatim>\<open>uniqid\<close> and
  the clock.  They are parameters of every operation.  \<open>'p\<close> is the type
  \<^verbatim>\<open>DataSourceParams\<close>; the two accessors read and write the
  \<^verbatim>\<open>refreshToken\<close> property of a parameters object.  The last four fields
  say, for the settings and queries properties that this file never names, what is
  left of them once their empty objects are dropped and whether any property is left.
\<close>

record ('p, 'r, 'q) env =
  usingFileConfig :: bool
  getConfigDatasources :: "string \<Rightarrow> ('r, 'q) DataSourceInterface list"
  encryptParams :: "'p \<Rightarrow> string"
  testDataSourceConnection :: "('r, 'q) DataSourceInterface \<Rightarrow> error option"
  getToken :: "string \<Rightarrow> error + string option"
  get_refreshToken :: "'p \<Rightarrow> string"
  set_refreshToken :: "'p \<Rightarrow> string \<Rightarrow> 'p"
  uniqid_body :: string
  first_new_Date :: nat
  second_new_Date :: nat
  minimize_settings_other :: "'r \<Rightarrow> 'r"
  settings_other_hasKeys :: "'r \<Rightarrow> bool"
  minimize_queries_other :: "'q \<Rightarrow> 'q"
  queries_other_hasKeys :: "'q \<Rightarrow> bool"

text \<open>\<^verbatim>\<open>uniqid(prefix)\<close> is the prefix followed by the generated part.\<close>

definition uniqid :: "('p, 'r, 'q) env \<Rightarrow> string \<Rightarrow> string" where
  "uniqid env prefix = prefix @ uniqid_body env"

section \<open>Documents of the schema\<close>

text \<open>
  The schema of lines 17-29 sets no options, so the documents of
  \<^verbatim>\<open>DataSourceModel\<close> are minimized, when they are saved and when
  \<^verbatim>\<open>toJSON\<close> copies them: a nested object that has no property left is
  dropped, and so is the object that held nothing else.  Strings (also empty ones)
  and arrays (also empty ones) stay; the elements of \<^verbatim>\<open>ids\<close> and the entries
  of \<^verbatim>\<open>exposure\<close> have string properties and stay as they are.
\<close>

definition minimize_exposure :: "Exposure option \<Rightarrow> Exposure option" where
  "minimize_exposure ex = (case ex of None \<Rightarrow> None | Some es \<Rightarrow> if es = [] then None else Some es)"

definition minimize_queries :: "('p, 'r, 'q) env \<Rightarrow> 'q Queries \<Rightarrow> 'q Queries option" where
  "minimize_queries env qs =
     (if experimentsQuery qs = None \<and> minimize_exposure (exposure qs) = None
         \<and> \<not> queries_other_hasKeys env (minimize_queries_other env (queries_other qs))
      then None
      else Some \<lparr>experimentsQuery = experimentsQuery qs,
                 exposure = minimize_exposure (exposure qs),
                 queries_other = minimize_queries_other env (queries_other qs)\<rparr>)"

definition minimize_settings ::
  "('p, 'r, 'q) env \<Rightarrow> ('r, 'q) DataSourceSettings \<Rightarrow> ('r, 'q) DataSourceSettings option" where
  "minimize_settings env s =
     (let qs = (case queries s of None \<Rightarrow> None | Some q \<Rightarrow> minimize_queries env q);
          other = minimize_settings_other env (settings_other s)
      in if ids s = None \<and> experimentDimensions s = None \<and> qs = None
            \<and> \<not> settings_other_hasKeys env other
         then None
         else Some \<lparr>ids = ids s, experimentDimensions = experimentDimensions s,
                    queries = qs, settings_other = other\<rparr>)"

definition minimize_document ::
  "('p, 'r, 'q) env \<Rightarrow> ('r, 'q) DataSourceInterface \<Rightarrow> ('r, 'q) DataSourceInterface" where
  "minimize_document env doc =
     doc\<lparr>settings := (case settings doc of None \<Rightarrow> None | Some s \<Rightarrow> minimize_settings env s)\<rparr>"

definition toJSON ::
  "('p, 'r, 'q) env \<Rightarrow> ('r, 'q) DataSourceInterface \<Rightarrow> ('r, 'q) DataSourceInterface" where
  "toJSON env doc = minimize_document env doc"

text \<open>\<^verbatim>\<open>toInterface\<close>, lines 38-40.\<close>

definition toInterface ::
  "('p, 'r, 'q) env \<Rightarrow> ('r, 'q) DataSourceInterface
     \<Rightarrow> error + ('r, 'q) DataSourceInterface" where
  "toInterface env doc = upgradeDatasourceObject (toJSON env doc)"

section \<open>The document store\<close>

text \<open>
  The state is the collection of stored documents together with the sequence of calls
  made so far to the document store and to the external services.
\<close>

datatype event =
  DbFind | DbFindOne | DbDistinct | DbDeleteOne | DbCreate | DbUpdateOne
  | GetToken | TestConnection

record ('r, 'q) world =
  docs :: "('r, 'q) DataSourceInterface list"
  trace :: "event list"

definition empty_world :: "('r, 'q) world" where
  "empty_world = \<lparr>docs = [], trace = []\<rparr>"

definition log :: "event \<Rightarrow> ('r, 'q) world \<Rightarrow> ('r, 'q) world" where
  "log e w = w\<lparr>trace := trace w @ [e]\<rparr>"

text \<open>The key of the unique compound index of line 30.\<close>

definition key_of :: "('r, 'q) DataSourceInterface \<Rightarrow> string \<times> string" where
  "key_of d = (ds_id d, organization d)"

definition unique_index :: "('r, 'q) DataSourceInterface list \<Rightarrow> bool" where
  "unique_index ds = distinct (map key_of ds)"

definition matches :: "string \<Rightarrow> string \<Rightarrow> ('r, 'q) DataSourceInterface \<Rightarrow> bool" where
  "matches i org d = (ds_id d = i \<and> organization d = org)"

text \<open>The first element that satisfies a filter, with what precedes and follows it.\<close>

fun split_first :: "('a \<Rightarrow> bool) \<Rightarrow> 'a list \<Rightarrow> ('a list \<times> 'a \<times> 'a list) option" where
  "split_first P [] = None"
| "split_first P (x # xs) =
     (if P x then Some ([], x, xs)
      else (case split_first P xs of
              None \<Rightarrow> None
            | Some (pre, y, post) \<Rightarrow> Some (x # pre, y, post)))"

text \<open>
  The calls on \<^verbatim>\<open>DataSourceModel\<close>.  A collection with a unique index refuses
  an insert whose key is already stored, and an update that moves a document onto the
  key of another one.  \<^verbatim>\<open>create\<close> saves the minimized document.
\<close>

definition model_find ::
  "string \<Rightarrow> ('r, 'q) DataSourceInterface list \<Rightarrow> ('r, 'q) DataSourceInterface list" where
  "model_find org ds = filter (\<lambda>d. organization d = org) ds"

definition model_findOne ::
  "string \<Rightarrow> string \<Rightarrow> ('r, 'q) DataSourceInterface list
     \<Rightarrow> ('r, 'q) DataSourceInterface option" where
  "model_findOne i org ds =
     (case split_first (matches i org) ds of None \<Rightarrow> None | Some (pre, d, post) \<Rightarrow> Some d)"

definition model_distinct :: "('r, 'q) DataSourceInterface list \<Rightarrow> string list" where
  "model_distinct ds = remdups (map organization ds)"

definition model_deleteOne ::
  "string \<Rightarrow> string \<Rightarrow> ('r, 'q) DataSourceInterface list
     \<Rightarrow> ('r, 'q) DataSourceInterface list" where
  "model_deleteOne i org ds =
     (case split_first (matches i org) ds of None \<Rightarrow> ds | Some (pre, d, post) \<Rightarrow> pre @ post)"

definition model_create ::
  "('p, 'r, 'q) env \<Rightarrow> ('r, 'q) DataSourceInterface \<Rightarrow> ('r, 'q) DataSourceInterface list
     \<Rightarrow> error + ('r, 'q) DataSourceInterface list" where
  "model_create env d ds =
     (if key_of d \<in> set (map key_of ds) then Inl DuplicateKey
      else Inr (ds @ [minimize_document env d]))"

text \<open>\<^verbatim>\<open>{ $set: updates }\<close>: each field named in the updates is overwritten.\<close>

definition set_fields ::
  "('r, 'q) DataSourceUpdates \<Rightarrow> ('r, 'q) DataSourceInterface
     \<Rightarrow> ('r, 'q) DataSourceInterface" where
  "set_fields u d =
     \<lparr>ds_id = (case upd_id u of None \<Rightarrow> ds_id d | Some v \<Rightarrow> v),
      name = (case upd_name u of None \<Rightarrow> name d | Some v \<Rightarrow> v),
      organization = (case upd_organization u of None \<Rightarrow> organization d | Some v \<Rightarrow> v),
      ds_type = (case upd_type u of None \<Rightarrow> ds_type d | Some v \<Rightarrow> v),
      settings = (case upd_settings u of None \<Rightarrow> settings d | Some v \<Rightarrow> Some v),
      dateCreated = (case upd_dateCreated u of None \<Rightarrow> dateCreated d | Some v \<Rightarrow> v),
      dateUpdated = (case upd_dateUpdated u of None \<Rightarrow> dateUpdated d | Some v \<Rightarrow> v),
      params = (case upd_params u of None \<Rightarrow> params d | Some v \<Rightarrow> v)\<rparr>"

definition model_updateOne ::
  "string \<Rightarrow> string \<Rightarrow> ('r, 'q) DataSourceUpdates \<Rightarrow> ('r, 'q) DataSourceInterface list
     \<Rightarrow> error + ('r, 'q) DataSourceInterface list" where
  "model_updateOne i org u ds =
     (case split_first (matches i org) ds of
        None \<Rightarrow> Inr ds
      | Some (pre, d, post) \<Rightarrow>
          if key_of (set_fields u d) \<noteq> key_of d
             \<and> key_of (set_fields u d) \<in> set (map key_of (pre @ post))
          then Inl DuplicateKey
          else Inr (pre @ set_fields u d # post))"

section \<open>The operations of the model file\<close>

text \<open>
  An operation takes the environment, its arguments and the state, and returns what
  the caller sees (\<open>Inl\<close> for a thrown error) together with the state it leaves.
\<close>

text \<open>\<^verbatim>\<open>(await find(...)).map(toInterface)\<close>: the first error ends the map.\<close>

fun map_toInterface ::
  "('p, 'r, 'q) env \<Rightarrow> ('r, 'q) DataSourceInterface list
     \<Rightarrow> error + ('r, 'q) DataSourceInterface list" where
  "map_toInterface env [] = Inr []"
| "map_toInterface env (d # ds) =
     (case toInterface env d of
        Inl e \<Rightarrow> Inl e
      | Inr d' \<Rightarrow>
          (case map_toInterface env ds of Inl e \<Rightarrow> Inl e | Inr ds' \<Rightarrow> Inr (d' # ds')))"

text \<open>Lines 72-83.\<close>

definition getDataSourcesByOrganization ::
  "('p, 'r, 'q) env \<Rightarrow> string \<Rightarrow> ('r, 'q) world
     \<Rightarrow> (error + ('r, 'q) DataSourceInterface list) \<times> ('r, 'q) world" where
  "getDataSourcesByOrganization env org w =
     (if usingFileConfig env then (Inr (getConfigDatasources env org), w)
      else (map_toInterface env (model_find org (docs w)), log DbFind w))"

text \<open>
  Lines 84-98.  \<^verbatim>\<open>filter(...)[0] || null\<close>: element 0 of the filtered list, and
  \<^verbatim>\<open>null\<close> when there is none (an object is truthy).
\<close>

definition getDataSourceById ::
  "('p, 'r, 'q) env \<Rightarrow> string \<Rightarrow> string \<Rightarrow> ('r, 'q) world
     \<Rightarrow> (error + ('r, 'q) DataSourceInterface option) \<times> ('r, 'q) world" where
  "getDataSourceById env i org w =
     (if usingFileConfig env
      then (case filter (\<lambda>d. ds_id d = i) (getConfigDatasources env org) of
              [] \<Rightarrow> (Inr None, w)
            | d # rest \<Rightarrow> (Inr (Some d), w))
      else (case model_findOne i org (docs w) of
              None \<Rightarrow> (Inr None, log DbFindOne w)
            | Some doc \<Rightarrow>
                (case toInterface env doc of
                   Inl e \<Rightarrow> (Inl e, log DbFindOne w)
                 | Inr d \<Rightarrow> (Inr (Some d), log DbFindOne w))))"

text \<open>Lines 100-105.\<close>

definition getOrganizationsWithDatasources ::
  "('p, 'r, 'q) env \<Rightarrow> ('r, 'q) world \<Rightarrow> (error + string list) \<times> ('r, 'q) world" where
  "getOrganizationsWithDatasources env w =
     (if usingFileConfig env then (Inr [], w)
      else (Inr (model_distinct (docs w)), log DbDistinct w))"

text \<open>Lines 106-114.\<close>

definition deleteDatasourceById ::
  "('p, 'r, 'q) env \<Rightarrow> string \<Rightarrow> string \<Rightarrow> ('r, 'q) world
     \<Rightarrow> (error + unit) \<times> ('r, 'q) world" where
  "deleteDatasourceById env i org w =
     (if usingFileConfig env
      then (Inl (Error ''Cannot delete. Data sources managed by config.yml''), w)
      else (Inr (), (log DbDeleteOne w)\<lparr>docs := model_deleteOne i org (docs w)\<rparr>))"

text \<open>
  Lines 130-136: the token exchange of the \<^verbatim>\<open>google_analytics\<close> type.
  \<^verbatim>\<open>tokens.refresh_token || ""\<close> is the token when it is truthy and the empty
  string otherwise.
\<close>

definition exchange_refreshToken ::
  "('p, 'r, 'q) env \<Rightarrow> 'p \<Rightarrow> ('r, 'q) world \<Rightarrow> (error + 'p) \<times> ('r, 'q) world" where
  "exchange_refreshToken env ps w =
     (case getToken env (get_refreshToken env ps) of
        Inl e \<Rightarrow> (Inl e, log GetToken w)
      | Inr tok \<Rightarrow>
          (Inr (set_refreshToken env ps
                  (if truthy tok then (case tok of None \<Rightarrow> [] | Some t \<Rightarrow> t) else [])),
           log GetToken w))"

text \<open>Line 128: \<^verbatim>\<open>id || uniqid("ds_")\<close>; an empty string is falsy.\<close>

definition choose_id :: "('p, 'r, 'q) env \<Rightarrow> string option \<Rightarrow> string" where
  "choose_id env oid =
     (if truthy oid then (case oid of None \<Rightarrow> [] | Some j \<Rightarrow> j) else uniqid env ''ds_'')"

text \<open>Lines 138-147.\<close>

definition new_datasource ::
  "('p, 'r, 'q) env \<Rightarrow> string \<Rightarrow> string \<Rightarrow> string \<Rightarrow> 'p \<Rightarrow> ('r, 'q) DataSourceSettings
     \<Rightarrow> string \<Rightarrow> ('r, 'q) DataSourceInterface" where
  "new_datasource env org nm ty ps st i =
     \<lparr>ds_id = i,
      name = nm,
      organization = org,
      ds_type = ty,
      settings = Some st,
      dateCreated = first_new_Date env,
      dateUpdated = second_new_Date env,
      params = encryptParams env ps\<rparr>"

text \<open>
  Lines 149-153.  The document that \<^verbatim>\<open>create\<close> returns holds the data it was
  given; \<^verbatim>\<open>toInterface\<close> reads it through \<^verbatim>\<open>toJSON\<close>.
\<close>

definition test_and_create ::
  "('p, 'r, 'q) env \<Rightarrow> ('r, 'q) DataSourceInterface \<Rightarrow> ('r, 'q) world
     \<Rightarrow> (error + ('r, 'q) DataSourceInterface) \<times> ('r, 'q) world" where
  "test_and_create env datasource w =
     (case testDataSourceConnection env datasource of
        Some e \<Rightarrow> (Inl e, log TestConnection w)
      | None \<Rightarrow>
          (case model_create env datasource (docs w) of
             Inl e \<Rightarrow> (Inl e, log DbCreate (log TestConnection w))
           | Inr ds' \<Rightarrow>
               (toInterface env datasource,
                (log DbCreate (log TestConnection w))\<lparr>docs := ds'\<rparr>)))"

text \<open>Lines 116-154.\<close>

definition createDataSource ::
  "('p, 'r, 'q) env \<Rightarrow> string \<Rightarrow> string \<Rightarrow> string \<Rightarrow> 'p \<Rightarrow> ('r, 'q) DataSourceSettings
     \<Rightarrow> string option \<Rightarrow> ('r, 'q) world
     \<Rightarrow> (error + ('r, 'q) DataSourceInterface) \<times> ('r, 'q) world" where
  "createDataSource env org nm ty ps st oid w =
     (if usingFileConfig env
      then (Inl (Error ''Cannot add. Data sources managed by config.yml''), w)
      else
        if ty = ''google_analytics''
        then (case exchange_refreshToken env ps w of
                (Inl e, w') \<Rightarrow> (Inl e, w')
              | (Inr ps', w') \<Rightarrow>
                  test_and_create env (new_datasource env org nm ty ps' st (choose_id env oid)) w')
        else test_and_create env (new_datasource env org nm ty ps st (choose_id env oid)) w)"

text \<open>Lines 156-174.\<close>

definition updateDataSource ::
  "('p, 'r, 'q) env \<Rightarrow> string \<Rightarrow> string \<Rightarrow> ('r, 'q) DataSourceUpdates \<Rightarrow> ('r, 'q) world
     \<Rightarrow> (error + unit) \<times> ('r, 'q) world" where
  "updateDataSource env i org u w =
     (if usingFileConfig env
      then (Inl (Error ''Cannot update. Data sources managed by config.yml''), w)
      else (case model_updateOne i org u (docs w) of
              Inl e \<Rightarrow> (Inl e, log DbUpdateOne w)
            | Inr ds' \<Rightarrow> (Inr (), (log DbUpdateOne w)\<lparr>docs := ds'\<rparr>)))"

text \<open>A sequence of mutation calls, each with the environment it runs in.\<close>

datatype ('p, 'r, 'q) call =
    CreateDataSource "('p, 'r, 'q) env" string string string 'p
      "('r, 'q) DataSourceSettings" "string option"
  | UpdateDataSource "('p, 'r, 'q) env" string string "('r, 'q) DataSourceUpdates"
  | DeleteDatasourceById "('p, 'r, 'q) env" string string

fun step :: "('p, 'r, 'q) call \<Rightarrow> ('r, 'q) world \<Rightarrow> ('r, 'q) world" where
  "step (CreateDataSource env org nm ty ps st oid) w =
     snd (createDataSource env org nm ty ps st oid w)"
| "step (UpdateDataSource env i org u) w = snd (updateDataSource env i org u w)"
| "step (DeleteDatasourceById env i org) w = snd (deleteDatasourceById env i org w)"

fun run :: "('p, 'r, 'q) call list \<Rightarrow> ('r, 'q) world \<Rightarrow> ('r, 'q) world" where
  "run [] w = w"
| "run (c # cs) w = run cs (step c w)"

section \<open>The StringArrayField component\<close>

text \<open>
  The handlers of the select (lines 47-63 of the component) read the \<^verbatim>\<open>value\<close>
  property and the \<^verbatim>\<open>inputValue\<close> state.  A handler's effect is the argument of
  its call of \<^verbatim>\<open>onChange\<close> (if it calls it), the next \<^verbatim>\<open>inputValue\<close> and
  whether the event's default was prevented.
\<close>

record handled =
  onChange_arg :: "string list option"
  next_inputValue :: string
  defaultPrevented :: bool

definition onKeyDown :: "string list \<Rightarrow> string \<Rightarrow> string \<Rightarrow> handled" where
  "onKeyDown val inputValue key =
     (if inputValue = [] then
        \<lparr>onChange_arg = None, next_inputValue = inputValue, defaultPrevented = False\<rparr>
      else if key = ''Enter'' \<or> key = ''Tab'' \<or> key = '' '' \<or> key = '','' then
        \<lparr>onChange_arg = Some (val @ [inputValue]), next_inputValue = [],
         defaultPrevented = True\<rparr>
      else
        \<lparr>onChange_arg = None, next_inputValue = inputValue, defaultPrevented = False\<rparr>)"

definition onBlur :: "string list \<Rightarrow> string \<Rightarrow> handled" where
  "onBlur val inputValue =
     (if inputValue = [] then
        \<lparr>onChange_arg = None, next_inputValue = inputValue, defaultPrevented = False\<rparr>
      else
        \<lparr>onChange_arg = Some (val @ [inputValue]), next_inputValue = [],
         defaultPrevented = False\<rparr>)"

section \<open>Example data\<close>

text \<open>Concrete records and environments, used to evaluate the operations.\<close>

definition example_settings :: "(unit, unit) DataSourceSettings" where
  "example_settings =
     \<lparr>ids = None,
      experimentDimensions = Some [''country''],
      queries = Some \<lparr>experimentsQuery = Some ''SELECT * FROM exposures'', exposure = None,
                      queries_other = ()\<rparr>,
      settings_other = ()\<rparr>"

definition empty_query_settings :: "(unit, unit) DataSourceSettings" where
  "empty_query_settings =
     \<lparr>ids = None,
      experimentDimensions = None,
      queries = Some \<lparr>experimentsQuery = Some [], exposure = None, queries_other = ()\<rparr>,
      settings_other = ()\<rparr>"

definition empty_queries_settings :: "(unit, unit) DataSourceSettings" where
  "empty_queries_settings =
     \<lparr>ids = Some [],
      experimentDimensions = None,
      queries = Some \<lparr>experimentsQuery = None, exposure = None, queries_other = ()\<rparr>,
      settings_other = ()\<rparr>"

definition example_doc :: "(unit, unit) DataSourceInterface" where
  "example_doc =
     \<lparr>ds_id = ''ds_1'', name = ''Warehouse'', organization = ''org_1'',
      ds_type = ''postgres'', settings = Some example_settings,
      dateCreated = 1000, dateUpdated = 2000, params = ''3a7f''\<rparr>"

definition example_env :: "(string, unit, unit) env" where
  "example_env =
     \<lparr>usingFileConfig = False,
      getConfigDatasources = (\<lambda>org. []),
      encryptParams = (\<lambda>p. ''enc:'' @ p),
      testDataSourceConnection = (\<lambda>d. None),
      getToken = (\<lambda>code. Inr None),
      get_refreshToken = (\<lambda>p. p),
      set_refreshToken = (\<lambda>p t. t),
      uniqid_body = ''k3x9'',
      first_new_Date = 1000,
      second_new_Date = 1001,
      minimize_settings_other = (\<lambda>r. r),
      settings_other_hasKeys = (\<lambda>r. False),
      minimize_queries_other = (\<lambda>q. q),
      queries_other_hasKeys = (\<lambda>q. False)\<rparr>"

definition config_env :: "(string, unit, unit) env" where
  "config_env =
     example_env\<lparr>usingFileConfig := True,
                 getConfigDatasources := (\<lambda>org. if org = ''org_1'' then [example_doc] else [])\<rparr>"

definition offline_env :: "(string, unit, unit) env" where
  "offline_env =
     example_env\<lparr>testDataSourceConnection := (\<lambda>d. Some (External ''connection refused''))\<rparr>"

definition rename_updates :: "(unit, unit) DataSourceUpdates" where
  "rename_updates =
     \<lparr>upd_id = None, upd_name = Some ''Lake'', upd_organization = None, upd_type = None,
      upd_settings = None, upd_dateCreated = None, upd_dateUpdated = Some 3000,
      upd_params = None\<rparr>"

section \<open>Auxiliary facts\<close>

lemma split_first_Some:
  "split_first P xs = Some (pre, d, post) \<Longrightarrow>
     xs = pre @ d # post \<and> P d \<and> (\<forall>x\<in>set pre. \<not> P x)"
proof (induction xs arbitrary: pre)
  case Nil
  then show ?case by simp
next
  case (Cons x xs)
  show ?case
  proof (cases "P x")
    case True
    with Cons.prems show ?thesis by simp
  next
    case False
    with Cons.prems obtain pre' where s: "split_first P xs = Some (pre', d, post)" and p: "pre = x # pre'"
      by (auto split: option.splits)
    from Cons.IH [OF s] False p show ?thesis by simp
  qed
qed

lemma split_first_None: "split_first P xs = None \<Longrightarrow> \<forall>x\<in>set xs. \<not> P x"
  by (induction xs) (auto split: if_splits option.splits)

lemma key_of_minimize_document [simp]: "key_of (minimize_document env d) = key_of d"
  by (simp add: key_of_def minimize_document_def)

lemma unique_index_create:
  "unique_index ds \<Longrightarrow> model_create env d ds = Inr ds' \<Longrightarrow> unique_index ds'"
  by (auto simp: model_create_def unique_index_def split: if_splits)

lemma unique_index_deleteOne:
  assumes "unique_index ds"
  shows "unique_index (model_deleteOne i org ds)"
proof (cases "split_first (matches i org) ds")
  case None
  with assms show ?thesis by (simp add: model_deleteOne_def)
next
  case (Some t)
  obtain pre d post where t: "t = (pre, d, post)" by (cases t)
  from Some t have "ds = pre @ d # post" by (auto dest: split_first_Some)
  with Some t assms show ?thesis by (auto simp: model_deleteOne_def unique_index_def)
qed

lemma unique_index_updateOne:
  assumes "unique_index ds" and "model_updateOne i org u ds = Inr ds'"
  shows "unique_index ds'"
proof (cases "split_first (matches i org) ds")
  case None
  with assms show ?thesis by (simp add: model_updateOne_def)
next
  case (Some t)
  obtain pre d post where t: "t = (pre, d, post)" by (cases t)
  from Some t have "ds = pre @ d # post" by (auto dest: split_first_Some)
  with Some t assms show ?thesis
    by (auto simp: model_updateOne_def unique_index_def split: if_splits)
qed

lemma docs_log [simp]: "docs (log e w) = docs w"
  by (simp add: log_def)

lemma trace_log [simp]: "trace (log e w) = trace w @ [e]"
  by (simp add: log_def)

lemma test_and_create_unique:
  "unique_index (docs w) \<Longrightarrow> unique_index (docs (snd (test_and_create env d w)))"
  by (auto simp: test_and_create_def split: option.splits sum.splits dest: unique_index_create)

lemma docs_exchange: "docs (snd (exchange_refreshToken env ps w)) = docs w"
  by (simp add: exchange_refreshToken_def split: sum.splits)

lemma createDataSource_unique:
  "unique_index (docs w) \<Longrightarrow> unique_index (docs (snd (createDataSource env org nm ty ps st oid w)))"
  using docs_exchange [of env ps w]
  by (auto simp: createDataSource_def test_and_create_unique split: prod.splits sum.splits)

lemma updateDataSource_unique:
  "unique_index (docs w) \<Longrightarrow> unique_index (docs (snd (updateDataSource env i org u w)))"
  by (auto simp: updateDataSource_def split: sum.splits dest: unique_index_updateOne)

lemma deleteDatasourceById_unique:
  "unique_index (docs w) \<Longrightarrow> unique_index (docs (snd (deleteDatasourceById env i org w)))"
  by (simp add: deleteDatasourceById_def unique_index_deleteOne)

lemma step_unique: "unique_index (docs w) \<Longrightarrow> unique_index (docs (step c w))"
  by (cases c) (simp_all add: createDataSource_unique updateDataSource_unique deleteDatasourceById_unique)

lemma run_unique: "unique_index (docs w) \<Longrightarrow> unique_index (docs (run cs w))"
  by (induction cs arbitrary: w) (simp_all add: step_unique)

lemma upgrade_exposure_idem: "upgrade_exposure (upgrade_exposure s) = upgrade_exposure s"
  by (simp add: upgrade_exposure_def split: option.splits)

lemma ids_upgrade_exposure: "ids (upgrade_exposure s) = ids s"
  by (simp add: upgrade_exposure_def split: option.splits)

lemma upgrade_ids_fixed: "ids s \<noteq> None \<Longrightarrow> upgrade_ids s = s"
  by (simp add: upgrade_ids_def)

lemma ids_upgrade_ids: "ids (upgrade_ids s) \<noteq> None"
  by (simp add: upgrade_ids_def)

lemma filter_head_find:
  "(case filter P xs of [] \<Rightarrow> None | d # rest \<Rightarrow> Some d) = List.find P xs"
  by (induction xs) auto

lemma test_and_create_Inr:
  assumes "fst (test_and_create env d w) = Inr r"
  shows "docs (snd (test_and_create env d w)) = docs w @ [minimize_document env d]"
    and "key_of d \<notin> set (map key_of (docs w))"
    and "settings (minimize_document env d) \<noteq> None"
  using assms
  by (auto simp: test_and_create_def model_create_def toInterface_def toJSON_def
      upgradeDatasourceObject_def split: option.splits if_splits)

lemma choose_id_cases:
  "choose_id env oid =
     (case oid of
        None \<Rightarrow> ''ds_'' @ uniqid_body env
      | Some j \<Rightarrow> if j = [] then ''ds_'' @ uniqid_body env else j)"
  by (simp add: choose_id_def truthy_def uniqid_def split: option.splits)

lemma toInterface_no_settings:
  "settings d = None \<Longrightarrow> toInterface env d = Inl TypeError"
  by (simp add: toInterface_def toJSON_def minimize_document_def upgradeDatasourceObject_def)

lemma toInterface_error: "toInterface env d = Inl e \<Longrightarrow> e = TypeError"
  by (auto simp: toInterface_def upgradeDatasourceObject_def split: option.splits)

lemma map_toInterface_faults:
  "\<exists>d\<in>set ds. settings d = None \<Longrightarrow> map_toInterface env ds = Inl TypeError"
proof (induction ds)
  case Nil
  then show ?case by simp
next
  case (Cons x xs)
  show ?case
  proof (cases "toInterface env x")
    case (Inl e)
    then show ?thesis by (simp add: toInterface_error)
  next
    case (Inr x')
    then have "settings x \<noteq> None"
      using toInterface_no_settings [of x env] by (cases "settings x") auto
    with Cons.prems have "\<exists>d\<in>set xs. settings d = None" by auto
    then have "map_toInterface env xs = Inl TypeError" by (rule Cons.IH)
    with Inr show ?thesis by simp
  qed
qed

lemma findOne_unique:
  assumes "unique_index ds" and "d \<in> set ds" and "matches i org d"
  shows "model_findOne i org ds = Some d"
proof (cases "split_first (matches i org) ds")
  case None
  with assms(2,3) show ?thesis by (auto dest: split_first_None)
next
  case (Some t)
  obtain pre d' post where t: "t = (pre, d', post)" by (cases t)
  from Some t have ds: "ds = pre @ d' # post" and m: "matches i org d'"
    by (auto dest: split_first_Some)
  from assms(1) have "inj_on key_of (set ds)"
    by (simp add: unique_index_def distinct_map)
  moreover from m assms(3) have "key_of d = key_of d'"
    by (simp add: matches_def key_of_def)
  moreover from ds have "d' \<in> set ds" by simp
  ultimately have "d = d'" using assms(2) by (auto dest: inj_onD)
  with Some t show ?thesis by (simp add: model_findOne_def)
qed

lemma exchange_refreshToken_world:
  "snd (exchange_refreshToken env ps w) = log GetToken w"
  by (simp add: exchange_refreshToken_def split: sum.splits)

lemma updateOne_unique_map:
  assumes "unique_index ds" and "split_first (matches i org) ds = Some (pre, d, post)"
  shows "pre @ f d # post = map (\<lambda>x. if matches i org x then f x else x) ds"
proof -
  from assms(2) have ds: "ds = pre @ d # post" and m: "matches i org d"
    and pre: "\<forall>x\<in>set pre. \<not> matches i org x"
    by (auto dest: split_first_Some)
  have "\<not> matches i org x" if "x \<in> set post" for x
  proof
    assume "matches i org x"
    with m have "key_of x = key_of d" by (simp add: matches_def key_of_def)
    with that have "key_of d \<in> key_of ` set post" by (metis imageI)
    with assms(1) ds show False by (simp add: unique_index_def)
  qed
  then have "map (\<lambda>x. if matches i org x then f x else x) post = post"
    by (simp add: map_idI)
  moreover from pre have "map (\<lambda>x. if matches i org x then f x else x) pre = pre"
    by (simp add: map_idI)
  ultimately show ?thesis using m by (simp add: ds)
qed

section \<open>Verified properties\<close>

text \<open>
  C1.  When the file-config flag is set, \<^verbatim>\<open>createDataSource\<close>,
  \<^verbatim>\<open>updateDataSource\<close> and \<^verbatim>\<open>deleteDatasourceById\<close> each throw an
  \<^verbatim>\<open>Error\<close> with their message, whatever the arguments; the state they leave is
  the state they found: the stored documents are the same and no call to the document
  store (or to any service) has been made.
\<close>

theorem file_config_rejects_mutations:
  assumes "usingFileConfig env"
  shows "createDataSource env org nm ty ps st oid w =
           (Inl (Error ''Cannot add. Data sources managed by config.yml''), w)
       \<and> updateDataSource env i org u w =
           (Inl (Error ''Cannot update. Data sources managed by config.yml''), w)
       \<and> deleteDatasourceById env i org w =
           (Inl (Error ''Cannot delete. Data sources managed by config.yml''), w)"
  using assms by (simp add: createDataSource_def updateDataSource_def deleteDatasourceById_def)

theorem file_config_rejects_mutations_witness:
  "usingFileConfig config_env
   \<and> createDataSource config_env ''org_1'' ''Warehouse'' ''postgres'' ''secret'' example_settings None
       \<lparr>docs = [example_doc], trace = []\<rparr> =
       (Inl (Error ''Cannot add. Data sources managed by config.yml''),
        \<lparr>docs = [example_doc], trace = []\<rparr>)
   \<and> updateDataSource config_env ''ds_1'' ''org_1'' rename_updates \<lparr>docs = [example_doc], trace = []\<rparr> =
       (Inl (Error ''Cannot update. Data sources managed by config.yml''),
        \<lparr>docs = [example_doc], trace = []\<rparr>)
   \<and> deleteDatasourceById config_env ''ds_1'' ''org_1'' \<lparr>docs = [example_doc], trace = []\<rparr> =
       (Inl (Error ''Cannot delete. Data sources managed by config.yml''),
        \<lparr>docs = [example_doc], trace = []\<rparr>)"
proof -
  have h: "usingFileConfig config_env"
    by (simp add: config_env_def)
  show ?thesis
    using h file_config_rejects_mutations [OF h] by simp
qed

text \<open>
  C2.  After any sequence of \<^verbatim>\<open>createDataSource\<close>, \<^verbatim>\<open>updateDataSource\<close>
  and \<^verbatim>\<open>deleteDatasourceById\<close> calls from the empty store, in any environments, no
  two stored documents have the same (identifier, organization) pair.  The pair is
  the key of the unique index of line 30: the store refuses the insert or update that
  would repeat it.
\<close>

theorem store_keys_unique:
  "distinct (map (\<lambda>d. (ds_id d, organization d)) (docs (run cs empty_world)))"
proof -
  have "unique_index (docs (run cs empty_world))"
    by (rule run_unique) (simp add: unique_index_def empty_world_def)
  then show ?thesis
    by (simp add: unique_index_def key_of_def [abs_def])
qed

text \<open>
  C3.  \<^verbatim>\<open>upgradeDatasourceObject\<close> is idempotent: where it returns a record,
  applying it to that record returns the same record.
\<close>

theorem upgradeDatasourceObject_idempotent:
  assumes "upgradeDatasourceObject d = Inr d'"
  shows "upgradeDatasourceObject d' = Inr d'"
proof -
  from assms obtain s where s: "settings d = Some s"
    and d': "d' = d\<lparr>settings := Some (upgrade_exposure (upgrade_ids s))\<rparr>"
    by (auto simp: upgradeDatasourceObject_def split: option.splits)
  have "upgrade_ids (upgrade_exposure (upgrade_ids s)) = upgrade_exposure (upgrade_ids s)"
    by (rule upgrade_ids_fixed) (simp add: ids_upgrade_exposure ids_upgrade_ids)
  then show ?thesis
    by (simp add: d' upgradeDatasourceObject_def upgrade_exposure_idem)
qed

theorem upgradeDatasourceObject_idempotent_witness:
  "upgradeDatasourceObject example_doc =
     Inr (example_doc\<lparr>settings := Some (upgrade_exposure (upgrade_ids example_settings))\<rparr>)
   \<and> upgradeDatasourceObject
       (example_doc\<lparr>settings := Some (upgrade_exposure (upgrade_ids example_settings))\<rparr>) =
     Inr (example_doc\<lparr>settings := Some (upgrade_exposure (upgrade_ids example_settings))\<rparr>)"
proof -
  have h: "upgradeDatasourceObject example_doc =
     Inr (example_doc\<lparr>settings := Some (upgrade_exposure (upgrade_ids example_settings))\<rparr>)"
    by (simp add: upgradeDatasourceObject_def example_doc_def)
  show ?thesis
    using h upgradeDatasourceObject_idempotent [OF h] by simp
qed

text \<open>
  C4 (amended).  For a record whose settings are defined, \<^verbatim>\<open>upgradeDatasourceObject\<close>
  returns the record with these settings: \<^verbatim>\<open>ids\<close> is the two default entries
  when it was absent and is kept otherwise; when \<^verbatim>\<open>queries.experimentsQuery\<close> is
  present and not the empty string and \<^verbatim>\<open>queries.exposure\<close> is absent, the
  exposure is the \<^verbatim>\<open>main\<close> block with the query copied, the dimensions of
  \<^verbatim>\<open>experimentDimensions\<close> (or none) and the ids \<^verbatim>\<open>user_id\<close> and
  \<^verbatim>\<open>anonymous_id\<close>, and otherwise the exposure is kept; every other field of the
  record and of the settings is as it was.
\<close>

theorem upgrade_synthesizes_fields:
  assumes "settings d = Some s"
  shows "\<exists>s'. upgradeDatasourceObject d = Inr (d\<lparr>settings := Some s'\<rparr>)
     \<and> ids s' =
         (case ids s of
            None \<Rightarrow> Some [\<lparr>idt_id = ''user_id'', idt_description = ''Logged-in user id''\<rparr>,
                           \<lparr>idt_id = ''anonymous_id'', idt_description = ''Anonymous visitor id''\<rparr>]
          | Some v \<Rightarrow> Some v)
     \<and> experimentDimensions s' = experimentDimensions s
     \<and> settings_other s' = settings_other s
     \<and> (case queries s of
          None \<Rightarrow> queries s' = None
        | Some qs \<Rightarrow>
            \<exists>qs'. queries s' = Some qs'
               \<and> experimentsQuery qs' = experimentsQuery qs
               \<and> queries_other qs' = queries_other qs
               \<and> exposure qs' =
                   (case experimentsQuery qs of
                      None \<Rightarrow> exposure qs
                    | Some eq \<Rightarrow>
                        if eq \<noteq> [] \<and> exposure qs = None
                        then Some [(''main'',
                               \<lparr>description = ''Main experiment exposures table'',
                                dimensions = (case experimentDimensions s of
                                                None \<Rightarrow> [] | Some ds \<Rightarrow> ds),
                                exposure_ids = [''user_id'', ''anonymous_id''],
                                query = eq\<rparr>)]
                        else exposure qs))"
proof -
  let ?s' = "upgrade_exposure (upgrade_ids s)"
  have 1: "upgradeDatasourceObject d = Inr (d\<lparr>settings := Some ?s'\<rparr>)"
    using assms by (simp add: upgradeDatasourceObject_def)
  have 2: "ids ?s' = (case ids s of None \<Rightarrow> Some default_ids | Some v \<Rightarrow> Some v)"
    by (simp add: ids_upgrade_exposure upgrade_ids_def split: option.splits)
  have 3: "experimentDimensions ?s' = experimentDimensions s"
    by (simp add: upgrade_exposure_def upgrade_ids_def split: option.splits)
  have 4: "settings_other ?s' = settings_other s"
    by (simp add: upgrade_exposure_def upgrade_ids_def split: option.splits)
  have 5: "case queries s of
          None \<Rightarrow> queries ?s' = None
        | Some qs \<Rightarrow>
            \<exists>qs'. queries ?s' = Some qs'
               \<and> experimentsQuery qs' = experimentsQuery qs
               \<and> queries_other qs' = queries_other qs
               \<and> exposure qs' =
                   (case experimentsQuery qs of
                      None \<Rightarrow> exposure qs
                    | Some eq \<Rightarrow>
                        if eq \<noteq> [] \<and> exposure qs = None
                        then Some [(''main'',
                               \<lparr>description = ''Main experiment exposures table'',
                                dimensions = (case experimentDimensions s of
                                                None \<Rightarrow> [] | Some ds \<Rightarrow> ds),
                                exposure_ids = [''user_id'', ''anonymous_id''],
                                query = eq\<rparr>)]
                        else exposure qs)"
    by (auto simp: upgrade_exposure_def upgrade_ids_def main_exposure_def truthy_def
        split: option.splits)
  from 1 2 3 4 5 show ?thesis
    unfolding default_ids_def by blast
qed

theorem upgrade_synthesizes_fields_witness:
  "settings example_doc = Some example_settings
   \<and> upgradeDatasourceObject example_doc =
       Inr (example_doc\<lparr>settings := Some
         \<lparr>ids = Some [\<lparr>idt_id = ''user_id'', idt_description = ''Logged-in user id''\<rparr>,
                      \<lparr>idt_id = ''anonymous_id'', idt_description = ''Anonymous visitor id''\<rparr>],
          experimentDimensions = Some [''country''],
          queries = Some
            \<lparr>experimentsQuery = Some ''SELECT * FROM exposures'',
             exposure = Some [(''main'',
               \<lparr>description = ''Main experiment exposures table'',
                dimensions = [''country''],
                exposure_ids = [''user_id'', ''anonymous_id''],
                query = ''SELECT * FROM exposures''\<rparr>)],
             queries_other = ()\<rparr>,
          settings_other = ()\<rparr>\<rparr>)"
proof -
  have h: "settings example_doc = Some example_settings"
    by (simp add: example_doc_def)
  show ?thesis
    using h upgrade_synthesizes_fields [OF h]
    by (simp add: upgradeDatasourceObject_def upgrade_exposure_def upgrade_ids_def
        main_exposure_def truthy_def default_ids_def example_settings_def)
qed

text \<open>
  An \<^verbatim>\<open>experimentsQuery\<close> that is present and empty is falsy: the guard of line
  58 fails and no exposure is set, though \<^verbatim>\<open>exposure\<close> is absent.
\<close>

theorem upgrade_empty_experimentsQuery_counterexample:
  "queries empty_query_settings =
     Some \<lparr>experimentsQuery = Some [], exposure = None, queries_other = ()\<rparr>
   \<and> upgradeDatasourceObject (example_doc\<lparr>settings := Some empty_query_settings\<rparr>) =
       Inr (example_doc\<lparr>settings := Some
         \<lparr>ids = Some default_ids,
          experimentDimensions = None,
          queries = Some \<lparr>experimentsQuery = Some [], exposure = None, queries_other = ()\<rparr>,
          settings_other = ()\<rparr>\<rparr>)"
  by (simp add: upgradeDatasourceObject_def upgrade_exposure_def upgrade_ids_def truthy_def
      empty_query_settings_def)

text \<open>
  C5.  When the file-config flag is set, \<^verbatim>\<open>getDataSourcesByOrganization\<close>
  returns the static configuration's list for the organization and
  \<^verbatim>\<open>getDataSourceById\<close> returns the first entry of that list whose id is the one
  asked for, or \<^verbatim>\<open>null\<close> when there is none; neither touches the document
  store.
\<close>

theorem file_config_reads:
  assumes "usingFileConfig env"
  shows "getDataSourcesByOrganization env org w = (Inr (getConfigDatasources env org), w)
       \<and> getDataSourceById env i org w =
           (Inr (List.find (\<lambda>d. ds_id d = i) (getConfigDatasources env org)), w)"
proof -
  have "getDataSourceById env i org w =
          (Inr (case filter (\<lambda>d. ds_id d = i) (getConfigDatasources env org) of
                  [] \<Rightarrow> None | d # rest \<Rightarrow> Some d), w)"
    using assms by (simp add: getDataSourceById_def split: list.splits)
  then show ?thesis
    using assms by (simp add: filter_head_find getDataSourcesByOrganization_def)
qed

theorem file_config_reads_witness:
  "usingFileConfig config_env
   \<and> getDataSourcesByOrganization config_env ''org_1'' empty_world = (Inr [example_doc], empty_world)
   \<and> getDataSourceById config_env ''ds_1'' ''org_1'' empty_world = (Inr (Some example_doc), empty_world)
   \<and> getDataSourceById config_env ''ds_2'' ''org_1'' empty_world = (Inr None, empty_world)"
proof -
  have h: "usingFileConfig config_env"
    by (simp add: config_env_def)
  show ?thesis
    using h file_config_reads [OF h, of "''org_1''" empty_world "''ds_1''"]
      file_config_reads [OF h, of "''org_1''" empty_world "''ds_2''"]
    by (simp add: config_env_def example_doc_def)
qed

text \<open>
  C6.  Outside file-config mode, and once the token exchange of a
  \<^verbatim>\<open>google_analytics\<close> source has returned, \<^verbatim>\<open>createDataSource\<close> tests the
  connection of the record it has built before it inserts it: when the test throws,
  the call throws the same error, the stored documents are unchanged and the document
  store is not called; when the test passes, the insert follows the test.
\<close>

theorem createDataSource_tests_connection_first:
  assumes "\<not> usingFileConfig env"
    and "if ty = ''google_analytics''
         then fst (exchange_refreshToken env ps w) = Inr ps' else ps' = ps"
  shows
    "(testDataSourceConnection env (new_datasource env org nm ty ps' st (choose_id env oid)) = Some e
        \<longrightarrow> fst (createDataSource env org nm ty ps st oid w) = Inl e
          \<and> docs (snd (createDataSource env org nm ty ps st oid w)) = docs w
          \<and> trace (snd (createDataSource env org nm ty ps st oid w)) =
              trace w @ (if ty = ''google_analytics'' then [GetToken] else []) @ [TestConnection])
     \<and> (testDataSourceConnection env (new_datasource env org nm ty ps' st (choose_id env oid)) = None
        \<longrightarrow> trace (snd (createDataSource env org nm ty ps st oid w)) =
              trace w @ (if ty = ''google_analytics'' then [GetToken] else [])
                @ [TestConnection, DbCreate])"
proof (cases "ty = ''google_analytics''")
  case True
  with assms(2) have "exchange_refreshToken env ps w = (Inr ps', log GetToken w)"
    using exchange_refreshToken_world [of env ps w]
    by (cases "exchange_refreshToken env ps w") simp
  with True assms(1) have
    "createDataSource env org nm ty ps st oid w =
       test_and_create env (new_datasource env org nm ty ps' st (choose_id env oid)) (log GetToken w)"
    by (simp add: createDataSource_def)
  with True show ?thesis
    by (simp add: test_and_create_def split: sum.splits)
next
  case False
  with assms have
    "createDataSource env org nm ty ps st oid w =
       test_and_create env (new_datasource env org nm ty ps' st (choose_id env oid)) w"
    by (simp add: createDataSource_def)
  with False show ?thesis
    by (simp add: test_and_create_def split: sum.splits)
qed

theorem createDataSource_tests_connection_first_witness:
  "\<not> usingFileConfig offline_env
   \<and> createDataSource offline_env ''org_1'' ''Warehouse'' ''postgres'' ''secret''
       example_settings None \<lparr>docs = [example_doc], trace = []\<rparr> =
       (Inl (External ''connection refused''), \<lparr>docs = [example_doc], trace = [TestConnection]\<rparr>)
   \<and> trace (snd (createDataSource example_env ''org_1'' ''Warehouse'' ''postgres'' ''secret''
       example_settings None \<lparr>docs = [example_doc], trace = []\<rparr>)) = [TestConnection, DbCreate]"
proof -
  have h: "\<not> usingFileConfig offline_env"
    by (simp add: offline_env_def example_env_def)
  have h': "\<not> usingFileConfig example_env"
    by (simp add: example_env_def)
  have g: "if ''postgres'' = ''google_analytics''
         then fst (exchange_refreshToken offline_env ''secret'' \<lparr>docs = [example_doc], trace = []\<rparr>) = Inr ''secret''
         else ''secret'' = ''secret''"
    by simp
  have g': "if ''postgres'' = ''google_analytics''
         then fst (exchange_refreshToken example_env ''secret'' \<lparr>docs = [example_doc], trace = []\<rparr>) = Inr ''secret''
         else ''secret'' = ''secret''"
    by simp
  have t: "testDataSourceConnection offline_env d = Some (External ''connection refused'')" for d
    by (simp add: offline_env_def example_env_def)
  have t': "testDataSourceConnection example_env d = None" for d
    by (simp add: example_env_def)
  show ?thesis
    using h createDataSource_tests_connection_first [OF h g, of "''org_1''" "''Warehouse''"
        example_settings None "External ''connection refused''"]
      createDataSource_tests_connection_first [OF h' g', of "''org_1''" "''Warehouse''"
        example_settings None]
    by (simp add: t t' prod_eq_iff world.equality)
qed

text \<open>
  C7 (amended).  Outside file-config mode and for a type other than
  \<^verbatim>\<open>google_analytics\<close>, a \<^verbatim>\<open>createDataSource\<close> call that returns has added
  exactly one document to the store.  Its params are \<^verbatim>\<open>encryptParams(params)\<close>,
  and the parameters reach the store in no other way: a call with other parameters
  of the same encryption does the same.  Its organization, name and type are the
  arguments; its settings are the given settings with their empty nested objects
  dropped (the \<^verbatim>\<open>ids\<close> and \<^verbatim>\<open>experimentDimensions\<close> arrays as given); its two
  dates are the two readings of the clock.  Its id is the supplied id when that is a
  non-empty string and \<^verbatim>\<open>"ds_"\<close> followed by the generated part otherwise (no id,
  or the empty string), and in both cases no document of the organization had that
  id before.
\<close>

theorem createDataSource_persists:
  assumes "\<not> usingFileConfig env" and "ty \<noteq> ''google_analytics''"
    and "fst (createDataSource env org nm ty ps st oid w) = Inr r"
  shows "\<exists>i st'.
       i = (case oid of
              None \<Rightarrow> ''ds_'' @ uniqid_body env
            | Some j \<Rightarrow> if j = [] then ''ds_'' @ uniqid_body env else j)
     \<and> minimize_settings env st = Some st'
     \<and> docs (snd (createDataSource env org nm ty ps st oid w)) =
         docs w @
         [\<lparr>ds_id = i,
           name = nm,
           organization = org,
           ds_type = ty,
           settings = Some st',
           dateCreated = first_new_Date env,
           dateUpdated = second_new_Date env,
           params = encryptParams env ps\<rparr>]
     \<and> ids st' = ids st
     \<and> experimentDimensions st' = experimentDimensions st
     \<and> queries st' = (case queries st of None \<Rightarrow> None | Some qs \<Rightarrow> minimize_queries env qs)
     \<and> settings_other st' = minimize_settings_other env (settings_other st)
     \<and> (i, org) \<notin> set (map (\<lambda>d. (ds_id d, organization d)) (docs w))
     \<and> (\<forall>ps'. encryptParams env ps' = encryptParams env ps \<longrightarrow>
           createDataSource env org nm ty ps' st oid w =
           createDataSource env org nm ty ps st oid w)"
proof -
  let ?d = "new_datasource env org nm ty ps st (choose_id env oid)"
  from assms have c: "createDataSource env org nm ty ps st oid w = test_and_create env ?d w"
    by (simp add: createDataSource_def)
  with assms(3) have r: "fst (test_and_create env ?d w) = Inr r"
    by simp
  from test_and_create_Inr(3) [OF r] obtain st' where st': "minimize_settings env st = Some st'"
    by (auto simp: minimize_document_def new_datasource_def)
  from test_and_create_Inr(1) [OF r] c st'
  have 1: "docs (snd (createDataSource env org nm ty ps st oid w)) =
         docs w @
         [\<lparr>ds_id = choose_id env oid, name = nm, organization = org, ds_type = ty,
           settings = Some st', dateCreated = first_new_Date env,
           dateUpdated = second_new_Date env, params = encryptParams env ps\<rparr>]"
    by (simp add: minimize_document_def new_datasource_def)
  from st' have 2: "ids st' = ids st \<and> experimentDimensions st' = experimentDimensions st
     \<and> queries st' = (case queries st of None \<Rightarrow> None | Some qs \<Rightarrow> minimize_queries env qs)
     \<and> settings_other st' = minimize_settings_other env (settings_other st)"
    by (auto simp: minimize_settings_def Let_def split: if_splits)
  from test_and_create_Inr(2) [OF r]
  have 3: "(choose_id env oid, org) \<notin> set (map (\<lambda>d. (ds_id d, organization d)) (docs w))"
    by (simp add: key_of_def [abs_def] new_datasource_def)
  have 4: "createDataSource env org nm ty ps' st oid w =
           createDataSource env org nm ty ps st oid w"
    if "encryptParams env ps' = encryptParams env ps" for ps'
    using that assms(1,2) by (simp add: createDataSource_def new_datasource_def)
  from st' 1 2 3 4 show ?thesis
    unfolding choose_id_cases by blast
qed

theorem createDataSource_persists_witness:
  "\<not> usingFileConfig example_env \<and> ''postgres'' \<noteq> ''google_analytics''
   \<and> fst (createDataSource example_env ''org_1'' ''Warehouse'' ''postgres'' ''secret''
            example_settings (Some ''ds_main'') empty_world) =
       Inr \<lparr>ds_id = ''ds_main'', name = ''Warehouse'', organization = ''org_1'',
            ds_type = ''postgres'',
            settings = Some (upgrade_exposure (upgrade_ids example_settings)),
            dateCreated = 1000, dateUpdated = 1001, params = ''enc:secret''\<rparr>
   \<and> docs (snd (createDataSource example_env ''org_1'' ''Warehouse'' ''postgres'' ''secret''
            example_settings (Some ''ds_main'') empty_world)) =
       [\<lparr>ds_id = ''ds_main'', name = ''Warehouse'', organization = ''org_1'',
         ds_type = ''postgres'', settings = Some example_settings,
         dateCreated = 1000, dateUpdated = 1001, params = ''enc:secret''\<rparr>]"
proof -
  have h1: "\<not> usingFileConfig example_env"
    by (simp add: example_env_def)
  have h2: "''postgres'' \<noteq> ''google_analytics''"
    by simp
  have m: "minimize_settings example_env example_settings = Some example_settings"
    by (simp add: minimize_settings_def minimize_queries_def minimize_exposure_def
        example_settings_def example_env_def)
  have e: "testDataSourceConnection example_env d = None"
    "first_new_Date example_env = 1000" "second_new_Date example_env = 1001"
    "encryptParams example_env ''secret'' = ''enc:secret''" for d
    by (simp_all add: example_env_def)
  have h3: "fst (createDataSource example_env ''org_1'' ''Warehouse'' ''postgres'' ''secret''
            example_settings (Some ''ds_main'') empty_world) =
       Inr \<lparr>ds_id = ''ds_main'', name = ''Warehouse'', organization = ''org_1'',
            ds_type = ''postgres'',
            settings = Some (upgrade_exposure (upgrade_ids example_settings)),
            dateCreated = 1000, dateUpdated = 1001, params = ''enc:secret''\<rparr>"
    using h1
    by (simp add: createDataSource_def test_and_create_def model_create_def
        new_datasource_def choose_id_def truthy_def toInterface_def toJSON_def
        minimize_document_def m e upgradeDatasourceObject_def empty_world_def)
  from createDataSource_persists [OF h1 h2 h3] obtain i st' where
    "i = (case Some ''ds_main'' of
            None \<Rightarrow> ''ds_'' @ uniqid_body example_env
          | Some j \<Rightarrow> if j = [] then ''ds_'' @ uniqid_body example_env else j)"
    and "minimize_settings example_env example_settings = Some st'"
    and "docs (snd (createDataSource example_env ''org_1'' ''Warehouse'' ''postgres'' ''secret''
            example_settings (Some ''ds_main'') empty_world)) =
         docs empty_world @
         [\<lparr>ds_id = i, name = ''Warehouse'', organization = ''org_1'', ds_type = ''postgres'',
           settings = Some st', dateCreated = first_new_Date example_env,
           dateUpdated = second_new_Date example_env,
           params = encryptParams example_env ''secret''\<rparr>]"
    by blast
  with h1 h2 h3 show ?thesis
    by (simp add: m e empty_world_def)
qed

text \<open>
  A supplied id that is the empty string is falsy on line 128, and a
  \<^verbatim>\<open>queries\<close> object without properties is dropped when the document is saved:
  the call returns, and the stored record has the generated id and no
  \<^verbatim>\<open>queries\<close>.
\<close>

theorem createDataSource_given_id_settings_counterexample:
  "queries empty_queries_settings =
     Some \<lparr>experimentsQuery = None, exposure = None, queries_other = ()\<rparr>
   \<and> \<not> usingFileConfig example_env
   \<and> \<not> isl (fst (createDataSource example_env ''org_1'' ''Warehouse'' ''postgres'' ''secret''
                   empty_queries_settings (Some []) empty_world))
   \<and> docs (snd (createDataSource example_env ''org_1'' ''Warehouse'' ''postgres''
                  ''secret'' empty_queries_settings (Some []) empty_world)) =
       [\<lparr>ds_id = ''ds_k3x9'', name = ''Warehouse'', organization = ''org_1'',
         ds_type = ''postgres'',
         settings = Some \<lparr>ids = Some [], experimentDimensions = None, queries = None,
                          settings_other = ()\<rparr>,
         dateCreated = 1000, dateUpdated = 1001, params = ''enc:secret''\<rparr>]"
proof -
  have m: "minimize_settings example_env empty_queries_settings =
      Some \<lparr>ids = Some [], experimentDimensions = None, queries = None, settings_other = ()\<rparr>"
    by (simp add: minimize_settings_def minimize_queries_def minimize_exposure_def
        empty_queries_settings_def example_env_def)
  have e: "\<not> usingFileConfig example_env"
    "testDataSourceConnection example_env d = None"
    "uniqid_body example_env = ''k3x9''"
    "first_new_Date example_env = 1000" "second_new_Date example_env = 1001"
    "encryptParams example_env ''secret'' = ''enc:secret''" for d
    by (simp_all add: example_env_def)
  have q: "queries empty_queries_settings =
     Some \<lparr>experimentsQuery = None, exposure = None, queries_other = ()\<rparr>"
    by (simp add: empty_queries_settings_def)
  show ?thesis
    by (simp add: createDataSource_def test_and_create_def model_create_def
        new_datasource_def choose_id_def truthy_def uniqid_def toInterface_def toJSON_def
        minimize_document_def m e q upgradeDatasourceObject_def empty_world_def)
qed

text \<open>
  C8.  Outside file-config mode and on a store whose keys are unique,
  \<^verbatim>\<open>updateDataSource\<close> returns whenever the updates name neither the id nor the
  organization, and whenever it returns, the stored documents are the former ones
  with the document of the given (id, organization) replaced by its merge with the
  updates and every other document as it was; in the merge each field named in the
  updates has the new value and each other field keeps its value.
\<close>

theorem updateDataSource_partial_merge:
  assumes "unique_index (docs w)" and "\<not> usingFileConfig env"
  shows
    "(upd_id u = None \<and> upd_organization u = None
        \<longrightarrow> fst (updateDataSource env i org u w) = Inr ())
     \<and> (fst (updateDataSource env i org u w) = Inr ()
        \<longrightarrow> docs (snd (updateDataSource env i org u w)) =
              map (\<lambda>d. if ds_id d = i \<and> organization d = org then set_fields u d else d) (docs w))
     \<and> ds_id (set_fields u d) = (case upd_id u of None \<Rightarrow> ds_id d | Some v \<Rightarrow> v)
     \<and> name (set_fields u d) = (case upd_name u of None \<Rightarrow> name d | Some v \<Rightarrow> v)
     \<and> organization (set_fields u d) =
         (case upd_organization u of None \<Rightarrow> organization d | Some v \<Rightarrow> v)
     \<and> ds_type (set_fields u d) = (case upd_type u of None \<Rightarrow> ds_type d | Some v \<Rightarrow> v)
     \<and> settings (set_fields u d) =
         (case upd_settings u of None \<Rightarrow> settings d | Some v \<Rightarrow> Some v)
     \<and> dateCreated (set_fields u d) =
         (case upd_dateCreated u of None \<Rightarrow> dateCreated d | Some v \<Rightarrow> v)
     \<and> dateUpdated (set_fields u d) =
         (case upd_dateUpdated u of None \<Rightarrow> dateUpdated d | Some v \<Rightarrow> v)
     \<and> params (set_fields u d) = (case upd_params u of None \<Rightarrow> params d | Some v \<Rightarrow> v)"
proof -
  have ret: "fst (updateDataSource env i org u w) = Inr ()"
    if "upd_id u = None \<and> upd_organization u = None"
  proof -
    from that have "key_of (set_fields u x) = key_of x" for x
      by (simp add: key_of_def set_fields_def)
    then have "\<exists>ds'. model_updateOne i org u (docs w) = Inr ds'"
      by (simp add: model_updateOne_def split: option.splits)
    with assms(2) show ?thesis
      by (auto simp: updateDataSource_def)
  qed
  have eff: "docs (snd (updateDataSource env i org u w)) =
      map (\<lambda>d. if ds_id d = i \<and> organization d = org then set_fields u d else d) (docs w)"
    if r: "fst (updateDataSource env i org u w) = Inr ()"
  proof (cases "split_first (matches i org) (docs w)")
    case None
    then have "\<forall>x\<in>set (docs w). \<not> matches i org x"
      by (rule split_first_None)
    then have "map (\<lambda>d. if matches i org d then set_fields u d else d) (docs w) = docs w"
      by (simp add: map_idI)
    with None assms(2) show ?thesis
      by (simp add: updateDataSource_def model_updateOne_def matches_def)
  next
    case (Some t)
    obtain pre x post where t: "t = (pre, x, post)" by (cases t)
    from Some t assms(1) have
      "pre @ set_fields u x # post =
         map (\<lambda>d. if matches i org d then set_fields u d else d) (docs w)"
      by (simp add: updateOne_unique_map)
    moreover from r assms(2) obtain ds' where
      "model_updateOne i org u (docs w) = Inr ds'"
      and "docs (snd (updateDataSource env i org u w)) = ds'"
      by (auto simp: updateDataSource_def split: sum.splits)
    moreover from this(1) Some t have "ds' = pre @ set_fields u x # post"
      by (auto simp: model_updateOne_def split: if_splits)
    ultimately show ?thesis
      by (simp add: matches_def)
  qed
  from ret eff show ?thesis
    by (simp add: set_fields_def)
qed

theorem updateDataSource_partial_merge_witness:
  "unique_index (docs \<lparr>docs = [example_doc, example_doc\<lparr>ds_id := ''ds_2''\<rparr>], trace = []\<rparr>)
   \<and> \<not> usingFileConfig example_env
   \<and> updateDataSource example_env ''ds_1'' ''org_1'' rename_updates
       \<lparr>docs = [example_doc, example_doc\<lparr>ds_id := ''ds_2''\<rparr>], trace = []\<rparr> =
     (Inr (),
      \<lparr>docs = [example_doc\<lparr>name := ''Lake'', dateUpdated := 3000\<rparr>,
               example_doc\<lparr>ds_id := ''ds_2''\<rparr>],
       trace = [DbUpdateOne]\<rparr>)"
proof -
  have h1: "unique_index (docs \<lparr>docs = [example_doc, example_doc\<lparr>ds_id := ''ds_2''\<rparr>], trace = []\<rparr>)"
    by (simp add: unique_index_def key_of_def example_doc_def)
  have h2: "\<not> usingFileConfig example_env"
    by (simp add: example_env_def)
  have t: "trace (snd (updateDataSource example_env ''ds_1'' ''org_1'' rename_updates
       \<lparr>docs = [example_doc, example_doc\<lparr>ds_id := ''ds_2''\<rparr>], trace = []\<rparr>)) = [DbUpdateOne]"
    using h2 by (simp add: updateDataSource_def split: sum.splits)
  show ?thesis
    using h1 h2 t
      updateDataSource_partial_merge [OF h1 h2, of rename_updates "''ds_1''" "''org_1''" example_doc]
    by (simp add: prod_eq_iff world.equality rename_updates_def example_doc_def set_fields_def)
qed

text \<open>
  C9.  With a non-empty pending input, a comma, Enter, Tab or space key calls
  \<^verbatim>\<open>onChange\<close> with the current list followed by the pending input, and clears the
  pending input; with an empty pending input the handler calls nothing, leaves the
  input empty and does not prevent the default.
\<close>

theorem onKeyDown_commits_pending_token:
  "(inputValue \<noteq> [] \<and> key \<in> {'','', ''Enter'', ''Tab'', '' ''}
      \<longrightarrow> onChange_arg (onKeyDown val inputValue key) = Some (val @ [inputValue])
        \<and> next_inputValue (onKeyDown val inputValue key) = [])
   \<and> onKeyDown val [] key =
       \<lparr>onChange_arg = None, next_inputValue = [], defaultPrevented = False\<rparr>"
  by (auto simp: onKeyDown_def)

theorem onKeyDown_commits_pending_token_witness:
  "''b'' \<noteq> [] \<and> '','' \<in> {'','', ''Enter'', ''Tab'', '' ''}
   \<and> onChange_arg (onKeyDown [''a''] ''b'' '','') = Some [''a'', ''b'']
   \<and> next_inputValue (onKeyDown [''a''] ''b'' '','') = []
   \<and> onKeyDown [''a''] [] '','' =
       \<lparr>onChange_arg = None, next_inputValue = [], defaultPrevented = False\<rparr>"
  using onKeyDown_commits_pending_token [of "''b''" "'',''" "[''a'']"]
  by simp

text \<open>
  C10.  \<^verbatim>\<open>upgradeDatasourceObject\<close> returns a record when the settings are
  defined and raises a \<^verbatim>\<open>TypeError\<close> when they are undefined; outside file-config
  mode, both reads that apply the upgrade, \<^verbatim>\<open>getDataSourceById\<close> on the key of a
  stored record without settings and \<^verbatim>\<open>getDataSourcesByOrganization\<close> on its
  organization, throw that error.
\<close>

theorem upgradeDatasourceObject_needs_settings:
  "(settings d \<noteq> None \<longrightarrow> (\<exists>d'. upgradeDatasourceObject d = Inr d'))
   \<and> (settings d = None \<longrightarrow> upgradeDatasourceObject d = Inl TypeError)
   \<and> (settings d = None \<and> \<not> usingFileConfig env \<and> unique_index (docs w) \<and> d \<in> set (docs w)
        \<longrightarrow> fst (getDataSourceById env (ds_id d) (organization d) w) = Inl TypeError
          \<and> fst (getDataSourcesByOrganization env (organization d) w) = Inl TypeError)"
proof (intro conjI impI)
  assume "settings d \<noteq> None"
  then show "\<exists>d'. upgradeDatasourceObject d = Inr d'"
    by (auto simp: upgradeDatasourceObject_def)
next
  assume "settings d = None"
  then show "upgradeDatasourceObject d = Inl TypeError"
    by (simp add: upgradeDatasourceObject_def)
next
  assume a: "settings d = None \<and> \<not> usingFileConfig env \<and> unique_index (docs w) \<and> d \<in> set (docs w)"
  then have "model_findOne (ds_id d) (organization d) (docs w) = Some d"
    by (simp add: findOne_unique matches_def)
  with a show "fst (getDataSourceById env (ds_id d) (organization d) w) = Inl TypeError"
    by (simp add: getDataSourceById_def toInterface_no_settings)
next
  assume a: "settings d = None \<and> \<not> usingFileConfig env \<and> unique_index (docs w) \<and> d \<in> set (docs w)"
  then have "\<exists>x\<in>set (model_find (organization d) (docs w)). settings x = None"
    by (auto simp: model_find_def)
  then have "map_toInterface env (model_find (organization d) (docs w)) = Inl TypeError"
    by (rule map_toInterface_faults)
  with a show "fst (getDataSourcesByOrganization env (organization d) w) = Inl TypeError"
    by (simp add: getDataSourcesByOrganization_def)
qed

theorem upgradeDatasourceObject_needs_settings_witness:
  "upgradeDatasourceObject example_doc =
     Inr (example_doc\<lparr>settings := Some (upgrade_exposure (upgrade_ids example_settings))\<rparr>)
   \<and> upgradeDatasourceObject (example_doc\<lparr>settings := None\<rparr>) = Inl TypeError
   \<and> fst (getDataSourceById example_env ''ds_1'' ''org_1''
            \<lparr>docs = [example_doc\<lparr>settings := None\<rparr>], trace = []\<rparr>) = Inl TypeError
   \<and> fst (getDataSourcesByOrganization example_env ''org_1''
            \<lparr>docs = [example_doc\<lparr>settings := None\<rparr>], trace = []\<rparr>) = Inl TypeError"
proof -
  have h: "settings (example_doc\<lparr>settings := None\<rparr>) = None
      \<and> \<not> usingFileConfig example_env
      \<and> unique_index (docs \<lparr>docs = [example_doc\<lparr>settings := None\<rparr>], trace = []\<rparr>)
      \<and> example_doc\<lparr>settings := None\<rparr> \<in> set (docs \<lparr>docs = [example_doc\<lparr>settings := None\<rparr>], trace = []\<rparr>)"
    by (simp add: example_env_def unique_index_def)
  have g: "settings example_doc \<noteq> None"
    by (simp add: example_doc_def)
  show ?thesis
    using h g
      upgradeDatasourceObject_needs_settings [of "example_doc\<lparr>settings := None\<rparr>" example_env
        "\<lparr>docs = [example_doc\<lparr>settings := None\<rparr>], trace = []\<rparr>"]
      upgradeDatasourceObject_needs_settings [of example_doc example_env empty_world]
    by (simp add: example_doc_def upgradeDatasourceObject_def)
qed

end
